theory Spec2Isabelle
  imports Main "HOL-Library.AList"
begin

section \<open>The SSM association resource (internal/service/ssm/association.go)\<close>

subsection \<open>Go values\<close>

text \<open>
  A value of Go's \<open>interface{}\<close> as the plugin SDK hands it to the resource: a string, a
  bool, an int, a list (\<open>[]interface{}\<close>), a map (\<open>map[string]interface{}\<close>) or the
  nil interface. A Go map is kept as the list of its entries in some enumeration order,
  with \<open>map_of\<close> as the lookup \<open>m[k]\<close>; a \<open>range\<close> loop walks that list.
\<close>

datatype iface =
    VNil
  | VString string
  | VBool bool
  | VInt int
  | VList "iface list"
  | VMap "(string \<times> iface) list"

text \<open>A Go run-time panic: an index out of range, or a failed one-value type assertion.\<close>

datatype panic = IndexOutOfRange | TypeAssertionFailed

text \<open>\<open>aws.StringValue\<close>: the string behind a \<open>*string\<close>, and \<open>""\<close> for nil.\<close>

definition StringValue :: "string option \<Rightarrow> string" where
  "StringValue p = (case p of None \<Rightarrow> [] | Some s \<Rightarrow> s)"

text \<open>
  The two forms of the type assertion to string, applied to the result of a map lookup
  (\<open>None\<close> is the nil interface a missing key yields): \<open>x.(string)\<close> panics on anything
  but a string; \<open>v, ok := x.(string)\<close> reports \<open>ok = false\<close> instead.
\<close>

fun is_string :: "iface \<Rightarrow> bool" where
  "is_string (VString s) = True"
| "is_string _ = False"

definition assert_string :: "iface option \<Rightarrow> panic + string" where
  "assert_string x = (case x of Some (VString s) \<Rightarrow> Inr s | _ \<Rightarrow> Inl TypeAssertionFailed)"

definition string_ok :: "iface option \<Rightarrow> string option" where
  "string_ok x = (case x of Some (VString s) \<Rightarrow> Some s | _ \<Rightarrow> None)"

subsection \<open>The SDK structures of the output location\<close>

record S3OutputLocation =
  OutputS3BucketName :: "string option"
  OutputS3KeyPrefix :: "string option"
  OutputS3Region :: "string option"

record InstanceAssociationOutputLocation =
  S3Location :: "S3OutputLocation option"

subsection \<open>expandDocumentParameters (lines 379-388)\<close>

text \<open>
  The loop \<open>for k, v := range params\<close>: each entry stores a one-element slice holding
  \<open>aws.String(v.(string))\<close> under its key; the one-value assertion \<open>v.(string)\<close> panics
  on a value that is not a string.
\<close>

fun expandDocumentParameters_loop ::
  "(string \<times> iface) list \<Rightarrow> (string \<rightharpoonup> string option list) \<Rightarrow>
   panic + (string \<rightharpoonup> string option list)" where
  "expandDocumentParameters_loop [] docParams = Inr docParams"
| "expandDocumentParameters_loop ((k, v) # rest) docParams =
     (case v of
        VString s \<Rightarrow> expandDocumentParameters_loop rest (docParams(k \<mapsto> [Some s]))
      | _ \<Rightarrow> Inl TypeAssertionFailed)"

definition expandDocumentParameters ::
  "(string \<times> iface) list \<Rightarrow> panic + (string \<rightharpoonup> string option list)" where
  "expandDocumentParameters params = expandDocumentParameters_loop params Map.empty"

subsection \<open>expandAssociationOutputLocation (lines 390-413)\<close>

text \<open>
  The argument is a Go slice: \<open>None\<close> is the nil slice, \<open>Some []\<close> an empty slice that
  is not nil, on which \<open>config[0]\<close> panics. The bucket name is read with the one-value
  assertion; the key prefix is copied whenever its key is in the map; the region only
  when it is a string and not empty.
\<close>

definition expandAssociationOutputLocation ::
  "iface list option \<Rightarrow> panic + InstanceAssociationOutputLocation option" where
  "expandAssociationOutputLocation config =
     (case config of
        None \<Rightarrow> Inr None
      | Some [] \<Rightarrow> Inl IndexOutOfRange
      | Some (VMap locationConfig # _) \<Rightarrow>
          (case assert_string (map_of locationConfig ''s3_bucket_name'') of
             Inl p \<Rightarrow> Inl p
           | Inr bucket \<Rightarrow>
               (case (case map_of locationConfig ''s3_key_prefix'' of
                        None \<Rightarrow> Inr None
                      | Some v \<Rightarrow> map_sum id Some (assert_string (Some v))) of
                  Inl p \<Rightarrow> Inl p
                | Inr keyPrefix \<Rightarrow>
                    Inr (Some \<lparr>S3Location = Some
                      \<lparr>OutputS3BucketName = Some bucket,
                       OutputS3KeyPrefix = keyPrefix,
                       OutputS3Region =
                         (case string_ok (map_of locationConfig ''s3_region'') of
                            Some v \<Rightarrow> if v \<noteq> [] then Some v else None
                          | None \<Rightarrow> None)\<rparr>\<rparr>)))
      | Some (_ # _) \<Rightarrow> Inl TypeAssertionFailed)"

subsection \<open>flattenAssociationOutputLocation (lines 415-436)\<close>

text \<open>
  The result is a slice of maps: nil (\<open>None\<close>) when the location or its S3 location is
  nil, otherwise the one map \<open>item\<close>, built by the assignments \<open>item[k] = v\<close>.
\<close>

definition flattenAssociationOutputLocation ::
  "InstanceAssociationOutputLocation option \<Rightarrow> (string \<times> iface) list list option" where
  "flattenAssociationOutputLocation location =
     (case location of
        None \<Rightarrow> None
      | Some loc \<Rightarrow>
          (case S3Location loc of
             None \<Rightarrow> None
           | Some s3 \<Rightarrow>
               (let item0 = AList.update ''s3_bucket_name''
                              (VString (StringValue (OutputS3BucketName s3))) [];
                    item1 = (case OutputS3KeyPrefix s3 of
                               None \<Rightarrow> item0
                             | Some p \<Rightarrow> AList.update ''s3_key_prefix'' (VString p) item0);
                    item2 = (case OutputS3Region s3 of
                               None \<Rightarrow> item1
                             | Some r \<Rightarrow> AList.update ''s3_region'' (VString r) item1)
                in Some ([] @ [item2]))))"

subsection \<open>Errors and diagnostics\<close>

text \<open>
  A Go \<open>error\<close> value, by what the handlers ask of it: its text \<open>err.Error()\<close>, the code
  of the AWS error in its chain when there is one, and whether it is a not-found error
  (what \<open>tfresource.NotFound\<close> tests). The three are independent here, so every error
  the remote side can return is covered.
\<close>

record err =
  Error :: string
  Code :: "string option"
  IsNotFound :: bool

definition NotFound :: "err \<Rightarrow> bool" where
  "NotFound e = IsNotFound e"

fun HasPrefix :: "string \<Rightarrow> string \<Rightarrow> bool" where
  "HasPrefix s [] = True"
| "HasPrefix [] (c # p) = False"
| "HasPrefix (a # s) (c # p) = (a = c \<and> HasPrefix s p)"

fun Contains :: "string \<Rightarrow> string \<Rightarrow> bool" where
  "Contains [] substr = (substr = [])"
| "Contains (a # s) substr = (HasPrefix (a # s) substr \<or> Contains s substr)"

text \<open>\<open>tfawserr.ErrCodeContains\<close>: the error is an AWS error whose code contains the string.\<close>

definition ErrCodeContains :: "err \<Rightarrow> string \<Rightarrow> bool" where
  "ErrCodeContains e code = (case Code e of None \<Rightarrow> False | Some c \<Rightarrow> Contains c code)"

definition ErrCodeAssociationDoesNotExist :: string where
  "ErrCodeAssociationDoesNotExist = ''AssociationDoesNotExist''"

text \<open>
  \<open>diag.Diagnostics\<close>: the handlers only ever append error diagnostics, with
  \<open>sdkdiag.AppendErrorf\<close>; the message is the formatted string.
\<close>

datatype Diagnostic = DiagError string

definition AppendErrorf :: "Diagnostic list \<Rightarrow> string \<Rightarrow> Diagnostic list" where
  "AppendErrorf diags msg = diags @ [DiagError msg]"

subsection \<open>The resource data and its schema (lines 40-159)\<close>

text \<open>
  \<open>schema.ResourceData\<close>: the identifier, the new-resource mark, and one field for each
  key of the schema with the type the schema gives it; \<open>None\<close> is a key that is not set.
  The nested values keep the shape the SDK hands out: a list is \<open>[]interface{}\<close>, a map
  \<open>map[string]interface{}\<close>.
\<close>

record ResourceData =
  rd_Id :: string
  IsNewResource :: bool
  arn :: "string option"
  apply_only_at_cron_interval :: "bool option"
  association_name :: "string option"
  association_id :: "string option"
  instance_id :: "string option"
  document_version :: "string option"
  max_concurrency :: "string option"
  max_errors :: "string option"
  name :: "string option"
  parameters :: "(string \<times> iface) list option"
  schedule_expression :: "string option"
  output_location :: "iface list option"
  targets :: "iface list option"
  compliance_severity :: "string option"
  automation_target_parameter_name :: "string option"
  wait_for_success_timeout_seconds :: "int option"

text \<open>
  The conversion of Go types only: a slice of maps (\<open>[]map[string]interface{}\<close>) taken
  element by element as a slice of interface values (\<open>[]interface{}\<close>), with which the
  result of the flattener can be handed to the expander directly.
\<close>

definition as_interface_list :: "(string \<times> iface) list list option \<Rightarrow> iface list option" where
  "as_interface_list maps = map_option (map VMap) maps"

text \<open>
  The resource data does not hand a nested block back as the map that was written. For a
  block of \<open>output_location\<close> (schema lines 104-122), whether it comes from the
  configuration or from \<open>d.Set\<close>, \<open>d.Get\<close> and \<open>d.GetOk\<close> return a map with every key
  of the block's schema, and a key that is not set holds the zero value \<open>""\<close> of its
  type.
\<close>

definition output_location_keys :: "string list" where
  "output_location_keys = [''s3_bucket_name'', ''s3_key_prefix'', ''s3_region'']"

definition read_block :: "string list \<Rightarrow> (string \<times> iface) list \<Rightarrow> iface" where
  "read_block keys item =
     VMap (map (\<lambda>k. (k, case map_of item k of None \<Rightarrow> VString [] | Some v \<Rightarrow> v)) keys)"

definition read_blocks ::
  "string list \<Rightarrow> (string \<times> iface) list list option \<Rightarrow> iface list option" where
  "read_blocks keys maps = map_option (map (read_block keys)) maps"

definition SetId :: "string \<Rightarrow> ResourceData \<Rightarrow> ResourceData" where
  "SetId v d = d\<lparr>rd_Id := v\<rparr>"

text \<open>
  \<open>d.GetOk(key)\<close> of the plugin SDK: the value, and \<open>ok\<close> exactly when the key is set
  to a value other than the zero value of its type (\<open>""\<close>, \<open>false\<close>, \<open>0\<close>, the empty list
  or map). The first argument is that zero value; \<open>Some v\<close> is \<open>ok\<close> with the value \<open>v\<close>.
  \<open>d.Get(key)\<close> gives the zero value for a key that is not set.
\<close>

definition GetOk :: "'a \<Rightarrow> 'a option \<Rightarrow> 'a option" where
  "GetOk zero field =
     (case field of None \<Rightarrow> None | Some v \<Rightarrow> if v = zero then None else Some v)"

definition Get :: "'a \<Rightarrow> 'a option \<Rightarrow> 'a" where
  "Get zero field = (case field of None \<Rightarrow> zero | Some v \<Rightarrow> v)"

subsection \<open>The SDK's request and response structures\<close>

record Target =
  Key :: "string option"
  Values :: "string option list"

record AssociationDescription =
  AssociationId :: "string option"
  ApplyOnlyAtCronInterval :: "bool option"
  AssociationName :: "string option"
  InstanceId :: "string option"
  Name :: "string option"
  ScheduleExpression :: "string option"
  DocumentVersion :: "string option"
  ComplianceSeverity :: "string option"
  MaxConcurrency :: "string option"
  MaxErrors :: "string option"
  AutomationTargetParameterName :: "string option"
  Parameters :: "(string \<rightharpoonup> string option list) option"
  Targets :: "Target list option"
  OutputLocation :: "InstanceAssociationOutputLocation option"

text \<open>\<open>ssm.CreateAssociationInput\<close>; each field carries the prefix \<open>Create_\<close>.\<close>

record CreateAssociationInput =
  Create_Name :: "string option"
  Create_ApplyOnlyAtCronInterval :: "bool option"
  Create_AssociationName :: "string option"
  Create_InstanceId :: "string option"
  Create_DocumentVersion :: "string option"
  Create_ScheduleExpression :: "string option"
  Create_Parameters :: "(string \<rightharpoonup> string option list) option"
  Create_Targets :: "Target list option"
  Create_OutputLocation :: "InstanceAssociationOutputLocation option"
  Create_ComplianceSeverity :: "string option"
  Create_MaxConcurrency :: "string option"
  Create_MaxErrors :: "string option"
  Create_AutomationTargetParameterName :: "string option"

text \<open>\<open>ssm.UpdateAssociationInput\<close>; each field carries the prefix \<open>Update_\<close>.\<close>

record UpdateAssociationInput =
  Update_AssociationId :: "string option"
  Update_ApplyOnlyAtCronInterval :: "bool option"
  Update_AssociationName :: "string option"
  Update_DocumentVersion :: "string option"
  Update_ScheduleExpression :: "string option"
  Update_Parameters :: "(string \<rightharpoonup> string option list) option"
  Update_Targets :: "Target list option"
  Update_OutputLocation :: "InstanceAssociationOutputLocation option"
  Update_ComplianceSeverity :: "string option"
  Update_MaxConcurrency :: "string option"
  Update_MaxErrors :: "string option"
  Update_AutomationTargetParameterName :: "string option"

record CreateAssociationOutput =
  Output_AssociationDescription :: "AssociationDescription option"

text \<open>\<open>arn.ARN\<close> and its \<open>String\<close> method: the five parts behind \<open>arn:\<close>, joined by colons.\<close>

record ARN =
  ARN_Partition :: string
  ARN_Service :: string
  ARN_Region :: string
  ARN_AccountID :: string
  ARN_Resource :: string

definition ARN_String :: "ARN \<Rightarrow> string" where
  "ARN_String a =
     ''arn:'' @ ARN_Partition a @ '':'' @ ARN_Service a @ '':'' @ ARN_Region a @ '':'' @
     ARN_AccountID a @ '':'' @ ARN_Resource a"

text \<open>\<open>conns.AWSClient\<close>, the \<open>meta\<close> argument of every handler.\<close>

record AWSClient =
  Partition :: string
  Region :: string
  AccountID :: string

subsection \<open>The remote service and the functions of the package defined in other files\<close>

text \<open>
  What the handlers call and this file does not define, as parameters: the three remote
  operations of the connection (an error or a response), \<open>FindAssociationById\<close> and
  \<open>waitAssociationSuccess\<close> (which query the remote service), \<open>expandTargets\<close>,
  \<open>flattenParameters\<close> and \<open>flattenTargets\<close>, and the error \<open>d.Set\<close> returns for the
  three keys whose \<open>Set\<close> is checked (\<open>None\<close>: the value is written). Within one handler
  call each operation is issued at most once, so a function of the request stands for
  every answer the remote side can give.
\<close>

record env =
  CreateAssociationWithContext :: "CreateAssociationInput \<Rightarrow> err + CreateAssociationOutput"
  UpdateAssociationWithContext :: "UpdateAssociationInput \<Rightarrow> err option"
  DeleteAssociationWithContext :: "string option \<Rightarrow> err option"
  FindAssociationById :: "string \<Rightarrow> err + AssociationDescription"
  waitAssociationSuccess :: "string \<Rightarrow> int \<Rightarrow> err option"
  expandTargets :: "iface list \<Rightarrow> Target list option"
  flattenParameters :: "(string \<rightharpoonup> string option list) option \<Rightarrow> (string \<times> iface) list option"
  flattenTargets :: "Target list option \<Rightarrow> iface list option"
  SetError :: "string \<Rightarrow> err option"

text \<open>The operations a handler issued, in order, with their arguments.\<close>

datatype call =
    CreateAssociationCall CreateAssociationInput
  | UpdateAssociationCall UpdateAssociationInput
  | DeleteAssociationCall "string option"
  | FindAssociationByIdCall string
  | waitAssociationSuccessCall string int

text \<open>What a handler leaves: the resource data, the diagnostics it returns, the calls.\<close>

record outcome =
  data :: ResourceData
  diags :: "Diagnostic list"
  calls :: "call list"

definition after_calls :: "call list \<Rightarrow> outcome \<Rightarrow> outcome" where
  "after_calls cs r = r\<lparr>calls := cs @ calls r\<rparr>"

subsection \<open>resourceAssociationRead (lines 243-292)\<close>

definition resourceAssociationRead :: "env \<Rightarrow> AWSClient \<Rightarrow> ResourceData \<Rightarrow> outcome" where
  "resourceAssociationRead conn meta d =
     (case FindAssociationById conn (rd_Id d) of
        Inl e \<Rightarrow>
          if \<not> IsNewResource d \<and> NotFound e
          then \<lparr>data = SetId [] d, diags = [], calls = [FindAssociationByIdCall (rd_Id d)]\<rparr>
          else \<lparr>data = d,
                diags = AppendErrorf []
                  (''reading SSM Association ('' @ rd_Id d @ ''): '' @ Error e),
                calls = [FindAssociationByIdCall (rd_Id d)]\<rparr>
      | Inr association \<Rightarrow>
          (let d1 = d\<lparr>arn := Some (ARN_String
                         \<lparr>ARN_Partition = Partition meta,
                          ARN_Service = ''ssm'',
                          ARN_Region = Region meta,
                          ARN_AccountID = AccountID meta,
                          ARN_Resource =
                            ''association/'' @ StringValue (AssociationId association)\<rparr>),
                      apply_only_at_cron_interval := ApplyOnlyAtCronInterval association,
                      association_name := AssociationName association,
                      instance_id := InstanceId association,
                      name := Name association,
                      association_id := AssociationId association,
                      schedule_expression := ScheduleExpression association,
                      document_version := DocumentVersion association,
                      compliance_severity := ComplianceSeverity association,
                      max_concurrency := MaxConcurrency association,
                      max_errors := MaxErrors association,
                      automation_target_parameter_name :=
                        AutomationTargetParameterName association\<rparr>;
               cs = [FindAssociationByIdCall (rd_Id d)]
           in case SetError conn ''parameters'' of
                Some e \<Rightarrow>
                  \<lparr>data = d1,
                   diags = AppendErrorf []
                     (''reading SSM Association ('' @ rd_Id d1 @ ''): '' @ Error e),
                   calls = cs\<rparr>
              | None \<Rightarrow>
                  (let d2 = d1\<lparr>parameters := flattenParameters conn (Parameters association)\<rparr>
                   in case SetError conn ''targets'' of
                        Some e \<Rightarrow>
                          \<lparr>data = d2,
                           diags = AppendErrorf [] (''setting targets error: '' @ Error e),
                           calls = cs\<rparr>
                      | None \<Rightarrow>
                          (let d3 = d2\<lparr>targets := flattenTargets conn (Targets association)\<rparr>
                           in case SetError conn ''output_location'' of
                                Some e \<Rightarrow>
                                  \<lparr>data = d3,
                                   diags = AppendErrorf []
                                     (''setting output_location error: '' @ Error e),
                                   calls = cs\<rparr>
                              | None \<Rightarrow>
                                  \<lparr>data = d3\<lparr>output_location :=
                                     read_blocks output_location_keys
                                       (flattenAssociationOutputLocation
                                          (OutputLocation association))\<rparr>,
                                   diags = [],
                                   calls = cs\<rparr>))))"

subsection \<open>resourceAssociationCreate (lines 163-241)\<close>

text \<open>
  \<open>time.ParseDuration(fmt.Sprintf("%ds", v))\<close> with its error dropped: \<open>v\<close> seconds in
  nanoseconds, and \<open>0\<close> where the parser reports an overflow (more than \<open>2^63 div 10^9\<close>
  seconds either way).
\<close>

definition ParseDuration_seconds :: "int \<Rightarrow> int" where
  "ParseDuration_seconds v =
     (if \<bar>v\<bar> > 2 ^ 63 div 10 ^ 9 then 0 else v * 10 ^ 9)"

text \<open>
  Lines 169-219, the request: the name always, every other attribute only under the
  \<open>ok\<close> of \<open>d.GetOk\<close>. The two expanders that can panic run in the order of the source.
\<close>

definition createAssociationInput :: "env \<Rightarrow> ResourceData \<Rightarrow> panic + CreateAssociationInput" where
  "createAssociationInput conn d =
     (case (case GetOk [] (parameters d) of
              None \<Rightarrow> Inr None
            | Some v \<Rightarrow> map_sum id Some (expandDocumentParameters v)) of
        Inl p \<Rightarrow> Inl p
      | Inr params \<Rightarrow>
          (case (case GetOk [] (output_location d) of
                   None \<Rightarrow> Inr None
                 | Some v \<Rightarrow> expandAssociationOutputLocation (Some v)) of
             Inl p \<Rightarrow> Inl p
           | Inr location \<Rightarrow>
               Inr \<lparr>Create_Name = Some (Get [] (name d)),
                    Create_ApplyOnlyAtCronInterval =
                      GetOk False (apply_only_at_cron_interval d),
                    Create_AssociationName = GetOk [] (association_name d),
                    Create_InstanceId = GetOk [] (instance_id d),
                    Create_DocumentVersion = GetOk [] (document_version d),
                    Create_ScheduleExpression = GetOk [] (schedule_expression d),
                    Create_Parameters = params,
                    Create_Targets =
                      (case GetOk [] (targets d) of
                         None \<Rightarrow> None
                       | Some v \<Rightarrow> expandTargets conn v),
                    Create_OutputLocation = location,
                    Create_ComplianceSeverity = GetOk [] (compliance_severity d),
                    Create_MaxConcurrency = GetOk [] (max_concurrency d),
                    Create_MaxErrors = GetOk [] (max_errors d),
                    Create_AutomationTargetParameterName =
                      GetOk [] (automation_target_parameter_name d)\<rparr>))"

text \<open>Lines 221-240; a panic of the request's construction ends the call.\<close>

definition resourceAssociationCreate ::
  "env \<Rightarrow> AWSClient \<Rightarrow> ResourceData \<Rightarrow> panic + outcome" where
  "resourceAssociationCreate conn meta d =
     (case createAssociationInput conn d of
        Inl p \<Rightarrow> Inl p
      | Inr associationInput \<Rightarrow>
          Inr (case CreateAssociationWithContext conn associationInput of
                 Inl e \<Rightarrow>
                   \<lparr>data = d,
                    diags = AppendErrorf [] (''creating SSM association: '' @ Error e),
                    calls = [CreateAssociationCall associationInput]\<rparr>
               | Inr resp \<Rightarrow>
                   (case Output_AssociationDescription resp of
                      None \<Rightarrow>
                        \<lparr>data = d,
                         diags = AppendErrorf [] ''AssociationDescription was nil'',
                         calls = [CreateAssociationCall associationInput]\<rparr>
                    | Some description \<Rightarrow>
                        (let d1 = SetId (StringValue (AssociationId description)) d
                         in case GetOk 0 (wait_for_success_timeout_seconds d1) of
                              None \<Rightarrow>
                                after_calls [CreateAssociationCall associationInput]
                                  (resourceAssociationRead conn meta d1)
                            | Some v \<Rightarrow>
                                (let dur = ParseDuration_seconds v
                                 in case waitAssociationSuccess conn (rd_Id d1) dur of
                                      Some e \<Rightarrow>
                                        \<lparr>data = d1,
                                         diags = AppendErrorf []
                                           (''waiting for SSM Association ('' @ rd_Id d1 @
                                            '') to be Success: '' @ Error e),
                                         calls = [CreateAssociationCall associationInput,
                                                  waitAssociationSuccessCall (rd_Id d1) dur]\<rparr>
                                    | None \<Rightarrow>
                                        after_calls
                                          [CreateAssociationCall associationInput,
                                           waitAssociationSuccessCall (rd_Id d1) dur]
                                          (resourceAssociationRead conn meta d1))))))"

subsection \<open>resourceAssociationUpdate (lines 294-355)\<close>

definition updateAssociationInput :: "env \<Rightarrow> ResourceData \<Rightarrow> panic + UpdateAssociationInput" where
  "updateAssociationInput conn d =
     (case (case GetOk [] (parameters d) of
              None \<Rightarrow> Inr None
            | Some v \<Rightarrow> map_sum id Some (expandDocumentParameters v)) of
        Inl p \<Rightarrow> Inl p
      | Inr params \<Rightarrow>
          (case (case GetOk [] (output_location d) of
                   None \<Rightarrow> Inr None
                 | Some v \<Rightarrow> expandAssociationOutputLocation (Some v)) of
             Inl p \<Rightarrow> Inl p
           | Inr location \<Rightarrow>
               Inr \<lparr>Update_AssociationId = Some (rd_Id d),
                    Update_ApplyOnlyAtCronInterval =
                      GetOk False (apply_only_at_cron_interval d),
                    Update_AssociationName = GetOk [] (association_name d),
                    Update_DocumentVersion = GetOk [] (document_version d),
                    Update_ScheduleExpression = GetOk [] (schedule_expression d),
                    Update_Parameters = params,
                    Update_Targets =
                      (case GetOk [] (targets d) of
                         None \<Rightarrow> None
                       | Some _ \<Rightarrow> expandTargets conn (Get [] (targets d))),
                    Update_OutputLocation = location,
                    Update_ComplianceSeverity = GetOk [] (compliance_severity d),
                    Update_MaxConcurrency = GetOk [] (max_concurrency d),
                    Update_MaxErrors = GetOk [] (max_errors d),
                    Update_AutomationTargetParameterName =
                      GetOk [] (automation_target_parameter_name d)\<rparr>))"

definition resourceAssociationUpdate ::
  "env \<Rightarrow> AWSClient \<Rightarrow> ResourceData \<Rightarrow> panic + outcome" where
  "resourceAssociationUpdate conn meta d =
     (case updateAssociationInput conn d of
        Inl p \<Rightarrow> Inl p
      | Inr associationInput \<Rightarrow>
          Inr (case UpdateAssociationWithContext conn associationInput of
                 Some e \<Rightarrow>
                   \<lparr>data = d,
                    diags = AppendErrorf [] (''updating SSM association: '' @ Error e),
                    calls = [UpdateAssociationCall associationInput]\<rparr>
               | None \<Rightarrow>
                   after_calls [UpdateAssociationCall associationInput]
                     (resourceAssociationRead conn meta d)))"

subsection \<open>resourceAssociationDelete (lines 357-377)\<close>

definition resourceAssociationDelete :: "env \<Rightarrow> AWSClient \<Rightarrow> ResourceData \<Rightarrow> outcome" where
  "resourceAssociationDelete conn meta d =
     (let params = Some (rd_Id d)
      in case DeleteAssociationWithContext conn params of
           Some e \<Rightarrow>
             if ErrCodeContains e ErrCodeAssociationDoesNotExist
             then \<lparr>data = d, diags = [], calls = [DeleteAssociationCall params]\<rparr>
             else \<lparr>data = d,
                   diags = AppendErrorf [] (''deleting SSM association: '' @ Error e),
                   calls = [DeleteAssociationCall params]\<rparr>
         | None \<Rightarrow> \<lparr>data = d, diags = [], calls = [DeleteAssociationCall params]\<rparr>)"

subsection \<open>The flattened item in closed form\<close>

text \<open>
  The map \<open>item\<close> that \<open>flattenAssociationOutputLocation\<close> builds, written as the list of
  its entries.
\<close>

definition flat_item :: "S3OutputLocation \<Rightarrow> (string \<times> iface) list" where
  "flat_item s3 =
     [(''s3_bucket_name'', VString (StringValue (OutputS3BucketName s3)))] @
     (case OutputS3KeyPrefix s3 of None \<Rightarrow> [] | Some p \<Rightarrow> [(''s3_key_prefix'', VString p)]) @
     (case OutputS3Region s3 of None \<Rightarrow> [] | Some r \<Rightarrow> [(''s3_region'', VString r)])"

subsection \<open>Sample inputs\<close>

text \<open>
  Concrete values on which the theorems below are instantiated: a client, a resource
  data record with only the name set, a remote association, errors, and a remote side
  that answers every creation, lookup and deletion with the given results.
\<close>

definition sample_meta :: AWSClient where
  "sample_meta = \<lparr>Partition = ''aws'', Region = ''eu-west-1'', AccountID = ''123456789012''\<rparr>"

definition sample_data :: ResourceData where
  "sample_data =
     \<lparr>rd_Id = ''id-0'', IsNewResource = False, arn = None,
      apply_only_at_cron_interval = None, association_name = None, association_id = None,
      instance_id = None, document_version = None, max_concurrency = None,
      max_errors = None, name = Some ''AWS-RunPatchBaseline'', parameters = None,
      schedule_expression = None, output_location = None, targets = None,
      compliance_severity = None, automation_target_parameter_name = None,
      wait_for_success_timeout_seconds = None\<rparr>"

definition sample_association :: AssociationDescription where
  "sample_association =
     \<lparr>AssociationId = Some ''id-1'', ApplyOnlyAtCronInterval = None,
      AssociationName = None, InstanceId = None, Name = Some ''AWS-RunPatchBaseline'',
      ScheduleExpression = None, DocumentVersion = Some ''1'', ComplianceSeverity = None,
      MaxConcurrency = None, MaxErrors = None, AutomationTargetParameterName = None,
      Parameters = None, Targets = None, OutputLocation = None\<rparr>"

definition sample_input :: CreateAssociationInput where
  "sample_input =
     \<lparr>Create_Name = Some ''AWS-RunPatchBaseline'', Create_ApplyOnlyAtCronInterval = None,
      Create_AssociationName = None, Create_InstanceId = None, Create_DocumentVersion = None,
      Create_ScheduleExpression = None, Create_Parameters = None, Create_Targets = None,
      Create_OutputLocation = None, Create_ComplianceSeverity = None,
      Create_MaxConcurrency = None, Create_MaxErrors = None,
      Create_AutomationTargetParameterName = None\<rparr>"

definition sample_not_found :: err where
  "sample_not_found = \<lparr>Error = ''not found'', Code = None, IsNotFound = True\<rparr>"

definition sample_does_not_exist :: err where
  "sample_does_not_exist =
     \<lparr>Error = ''AssociationDoesNotExist: gone'', Code = Some ''AssociationDoesNotExist'',
      IsNotFound = False\<rparr>"

definition sample_env ::
  "(err + CreateAssociationOutput) \<Rightarrow> (err + AssociationDescription) \<Rightarrow> err option \<Rightarrow> env" where
  "sample_env created found deleted =
     \<lparr>CreateAssociationWithContext = (\<lambda>_. created),
      UpdateAssociationWithContext = (\<lambda>_. None),
      DeleteAssociationWithContext = (\<lambda>_. deleted),
      FindAssociationById = (\<lambda>_. found),
      waitAssociationSuccess = (\<lambda>_ _. None),
      expandTargets = (\<lambda>_. None),
      flattenParameters = (\<lambda>_. None),
      flattenTargets = (\<lambda>_. None),
      SetError = (\<lambda>_. None)\<rparr>"

section \<open>Properties\<close>

subsection \<open>The output location: flattening and expansion\<close>

lemma flatten_None: "flattenAssociationOutputLocation None = None"
  by (simp add: flattenAssociationOutputLocation_def)

lemma flatten_no_S3: "S3Location loc = None \<Longrightarrow> flattenAssociationOutputLocation (Some loc) = None"
  by (simp add: flattenAssociationOutputLocation_def)

lemma flatten_S3:
  "S3Location loc = Some s3 \<Longrightarrow>
   flattenAssociationOutputLocation (Some loc) = Some [flat_item s3]"
  by (simp add: flattenAssociationOutputLocation_def flat_item_def Let_def split: option.splits)

lemma flat_item_bucket: "map_of (flat_item s3) ''s3_bucket_name'' = Some (VString (StringValue (OutputS3BucketName s3)))"
  by (simp add: flat_item_def)

lemma flat_item_prefix: "map_of (flat_item s3) ''s3_key_prefix'' = map_option VString (OutputS3KeyPrefix s3)"
  by (simp add: flat_item_def split: option.splits)

lemma flat_item_region: "map_of (flat_item s3) ''s3_region'' = map_option VString (OutputS3Region s3)"
  by (simp add: flat_item_def split: option.splits)

lemma flat_item_keys: "fst ` set (flat_item s3) \<subseteq> {''s3_bucket_name'', ''s3_key_prefix'', ''s3_region''}"
  by (cases "OutputS3KeyPrefix s3"; cases "OutputS3Region s3"; simp add: flat_item_def)

lemma flat_item_distinct: "distinct (map fst (flat_item s3))"
  by (simp add: flat_item_def split: option.splits)

lemma expand_VMap:
  "expandAssociationOutputLocation (Some (VMap m # rest)) =
     (case assert_string (map_of m ''s3_bucket_name'') of
             Inl p \<Rightarrow> Inl p
           | Inr bucket \<Rightarrow>
               (case (case map_of m ''s3_key_prefix'' of
                        None \<Rightarrow> Inr None
                      | Some v \<Rightarrow> map_sum id Some (assert_string (Some v))) of
                  Inl p \<Rightarrow> Inl p
                | Inr keyPrefix \<Rightarrow>
                    Inr (Some \<lparr>S3Location = Some
                      \<lparr>OutputS3BucketName = Some bucket,
                       OutputS3KeyPrefix = keyPrefix,
                       OutputS3Region =
                         (case string_ok (map_of m ''s3_region'') of
                            Some v \<Rightarrow> if v \<noteq> [] then Some v else None
                          | None \<Rightarrow> None)\<rparr>\<rparr>)))"
  by (simp add: expandAssociationOutputLocation_def)

lemma expand_flat_item:
  "expandAssociationOutputLocation (Some (map VMap [flat_item s3])) =
     Inr (Some \<lparr>S3Location = Some
        \<lparr>OutputS3BucketName = Some (StringValue (OutputS3BucketName s3)),
         OutputS3KeyPrefix = OutputS3KeyPrefix s3,
         OutputS3Region = (if OutputS3Region s3 = Some [] then None else OutputS3Region s3)\<rparr>\<rparr>)"
  by (simp add: expand_VMap flat_item_bucket flat_item_prefix flat_item_region
      assert_string_def string_ok_def split: option.splits)

lemma expand_IndexOutOfRange_iff:
  "(expandAssociationOutputLocation config = Inl IndexOutOfRange) = (config = Some [])"
  by (auto simp: expandAssociationOutputLocation_def assert_string_def
      split: option.splits list.splits iface.splits sum.splits)

subsection \<open>The parameter loop\<close>

lemma loop_result:
  "list_all (\<lambda>(k, v). is_string v) params \<Longrightarrow>
   expandDocumentParameters_loop params acc =
     Inr (\<lambda>k. case map_of (rev params) k of
                 Some (VString s) \<Rightarrow> Some [Some s]
               | Some _ \<Rightarrow> None
               | None \<Rightarrow> acc k)"
proof (induction params arbitrary: acc)
  case Nil
  then show ?case by simp
next
  case (Cons kv rest)
  obtain k v where kv: "kv = (k, v)" by (cases kv)
  with Cons.prems obtain s where v: "v = VString s" and rest: "list_all (\<lambda>(k, v). is_string v) rest"
    by (cases v) auto
  show ?case
    unfolding kv v
    by (simp add: Cons.IH [OF rest] map_add_def fun_eq_iff split: option.splits iface.splits)
qed

lemma loop_panics:
  "\<not> list_all (\<lambda>(k, v). is_string v) params \<Longrightarrow>
   expandDocumentParameters_loop params acc = Inl TypeAssertionFailed"
proof (induction params arbitrary: acc)
  case Nil
  then show ?case by simp
next
  case (Cons kv rest)
  obtain k v where kv: "kv = (k, v)" by (cases kv)
  show ?case
  proof (cases v)
    case (VString s)
    with Cons.prems kv have "\<not> list_all (\<lambda>(k, v). is_string v) rest" by simp
    from Cons.IH [OF this] show ?thesis by (simp add: kv VString)
  qed (simp_all add: kv)
qed

lemma map_of_rev_distinct: "distinct (map fst xs) \<Longrightarrow> map_of (rev xs) = map_of xs"
  by (rule map_of_inject_set [THEN iffD2]) (simp_all add: rev_map [symmetric])

text \<open>
  Claim C7. \<open>flattenAssociationOutputLocation\<close> returns nil when the location or its S3
  location is nil. Otherwise it returns a list of exactly one map; the map always holds
  the bucket name (the empty string for a nil bucket pointer), holds the key prefix and
  the region exactly when the response has them, and holds no other key.
\<close>

theorem C7_flatten_output_location:
  "((location = None \<or> (\<exists>loc. location = Some loc \<and> S3Location loc = None)) \<longrightarrow>
      flattenAssociationOutputLocation location = None) \<and>
   (\<forall>loc s3. location = Some loc \<and> S3Location loc = Some s3 \<longrightarrow>
      (\<exists>item. flattenAssociationOutputLocation location = Some [item] \<and>
         distinct (map fst item) \<and>
         fst ` set item \<subseteq> {''s3_bucket_name'', ''s3_key_prefix'', ''s3_region''} \<and>
         map_of item ''s3_bucket_name'' = Some (VString (StringValue (OutputS3BucketName s3))) \<and>
         map_of item ''s3_key_prefix'' = map_option VString (OutputS3KeyPrefix s3) \<and>
         map_of item ''s3_region'' = map_option VString (OutputS3Region s3)))"
proof (intro conjI impI allI)
  assume "location = None \<or> (\<exists>loc. location = Some loc \<and> S3Location loc = None)"
  then show "flattenAssociationOutputLocation location = None"
    by (auto simp: flatten_None flatten_no_S3)
next
  fix loc s3
  assume "location = Some loc \<and> S3Location loc = Some s3"
  then have "flattenAssociationOutputLocation location = Some [flat_item s3]"
    by (simp add: flatten_S3)
  then show "\<exists>item. flattenAssociationOutputLocation location = Some [item] \<and>
         distinct (map fst item) \<and>
         fst ` set item \<subseteq> {''s3_bucket_name'', ''s3_key_prefix'', ''s3_region''} \<and>
         map_of item ''s3_bucket_name'' = Some (VString (StringValue (OutputS3BucketName s3))) \<and>
         map_of item ''s3_key_prefix'' = map_option VString (OutputS3KeyPrefix s3) \<and>
         map_of item ''s3_region'' = map_option VString (OutputS3Region s3)"
    using flat_item_distinct [of s3] flat_item_keys [of s3] flat_item_bucket [of s3]
      flat_item_prefix [of s3] flat_item_region [of s3]
    by blast
qed

text \<open>The three cases of C7 on concrete responses.\<close>

theorem C7_flatten_output_location_witness:
  "flattenAssociationOutputLocation None = None \<and>
   flattenAssociationOutputLocation (Some \<lparr>S3Location = None\<rparr>) = None \<and>
   (\<exists>item. flattenAssociationOutputLocation
        (Some \<lparr>S3Location = Some \<lparr>OutputS3BucketName = Some ''logs'',
           OutputS3KeyPrefix = None, OutputS3Region = Some ''eu-west-1''\<rparr>\<rparr>) = Some [item] \<and>
      map_of item ''s3_bucket_name'' = Some (VString ''logs'') \<and>
      map_of item ''s3_key_prefix'' = None \<and>
      map_of item ''s3_region'' = Some (VString ''eu-west-1''))"
proof -
  let ?s3 = "\<lparr>OutputS3BucketName = Some ''logs'', OutputS3KeyPrefix = None,
              OutputS3Region = Some ''eu-west-1''\<rparr>"
  have a: "flattenAssociationOutputLocation None = None"
    using C7_flatten_output_location [of None] by simp
  have b: "flattenAssociationOutputLocation (Some \<lparr>S3Location = None\<rparr>) = None"
    using C7_flatten_output_location [of "Some \<lparr>S3Location = None\<rparr>"] by simp
  have c: "\<exists>item. flattenAssociationOutputLocation (Some \<lparr>S3Location = Some ?s3\<rparr>) = Some [item] \<and>
      map_of item ''s3_bucket_name'' = Some (VString ''logs'') \<and>
      map_of item ''s3_key_prefix'' = None \<and>
      map_of item ''s3_region'' = Some (VString ''eu-west-1'')"
    using C7_flatten_output_location [of "Some \<lparr>S3Location = Some ?s3\<rparr>"]
    by (simp add: StringValue_def) blast
  from a b c show ?thesis by blast
qed

text \<open>
  Claim C5. For an output location whose present fields are all non-empty strings,
  expanding the flattened form succeeds and gives a request structure with the same
  bucket name, key prefix and region: every field present in the location is present,
  with the same value, in the result. (The flattened list of maps is handed to the
  expander as the list of interface values it is declared to take.) A location that is
  nil or has no S3 location has no field, and flattens and expands to nil.
\<close>

theorem C5_expand_flatten_round_trip:
  "((x = None \<or> (\<exists>loc. x = Some loc \<and> S3Location loc = None)) \<longrightarrow>
      expandAssociationOutputLocation
        (as_interface_list (flattenAssociationOutputLocation x)) = Inr None) \<and>
   (\<forall>loc s3.
      x = Some loc \<and> S3Location loc = Some s3 \<and>
      OutputS3BucketName s3 \<noteq> Some [] \<and>
      OutputS3KeyPrefix s3 \<noteq> Some [] \<and>
      OutputS3Region s3 \<noteq> Some [] \<longrightarrow>
      (\<exists>y. expandAssociationOutputLocation
              (as_interface_list (flattenAssociationOutputLocation x)) =
              Inr (Some \<lparr>S3Location = Some y\<rparr>) \<and>
            (\<forall>b. OutputS3BucketName s3 = Some b \<longrightarrow> OutputS3BucketName y = Some b) \<and>
            (\<forall>p. OutputS3KeyPrefix s3 = Some p \<longrightarrow> OutputS3KeyPrefix y = Some p) \<and>
            (\<forall>r. OutputS3Region s3 = Some r \<longrightarrow> OutputS3Region y = Some r)))"
proof (rule conjI)
  show "(x = None \<or> (\<exists>loc. x = Some loc \<and> S3Location loc = None)) \<longrightarrow>
      expandAssociationOutputLocation
        (as_interface_list (flattenAssociationOutputLocation x)) = Inr None"
    by (auto simp: flatten_None flatten_no_S3 as_interface_list_def
        expandAssociationOutputLocation_def)
next
  show "\<forall>loc s3.
      x = Some loc \<and> S3Location loc = Some s3 \<and>
      OutputS3BucketName s3 \<noteq> Some [] \<and>
      OutputS3KeyPrefix s3 \<noteq> Some [] \<and>
      OutputS3Region s3 \<noteq> Some [] \<longrightarrow>
      (\<exists>y. expandAssociationOutputLocation
              (as_interface_list (flattenAssociationOutputLocation x)) =
              Inr (Some \<lparr>S3Location = Some y\<rparr>) \<and>
            (\<forall>b. OutputS3BucketName s3 = Some b \<longrightarrow> OutputS3BucketName y = Some b) \<and>
            (\<forall>p. OutputS3KeyPrefix s3 = Some p \<longrightarrow> OutputS3KeyPrefix y = Some p) \<and>
            (\<forall>r. OutputS3Region s3 = Some r \<longrightarrow> OutputS3Region y = Some r))"
  proof (intro allI impI)
    fix loc s3
    assume a: "x = Some loc \<and> S3Location loc = Some s3 \<and>
      OutputS3BucketName s3 \<noteq> Some [] \<and>
      OutputS3KeyPrefix s3 \<noteq> Some [] \<and>
      OutputS3Region s3 \<noteq> Some []"
    then have "expandAssociationOutputLocation
            (as_interface_list (flattenAssociationOutputLocation x)) =
          Inr (Some \<lparr>S3Location = Some
            \<lparr>OutputS3BucketName = Some (StringValue (OutputS3BucketName s3)),
             OutputS3KeyPrefix = OutputS3KeyPrefix s3,
             OutputS3Region = OutputS3Region s3\<rparr>\<rparr>)"
      using expand_flat_item [of s3]
      by (simp add: flatten_S3 as_interface_list_def)
    then show "\<exists>y. expandAssociationOutputLocation
              (as_interface_list (flattenAssociationOutputLocation x)) =
              Inr (Some \<lparr>S3Location = Some y\<rparr>) \<and>
            (\<forall>b. OutputS3BucketName s3 = Some b \<longrightarrow> OutputS3BucketName y = Some b) \<and>
            (\<forall>p. OutputS3KeyPrefix s3 = Some p \<longrightarrow> OutputS3KeyPrefix y = Some p) \<and>
            (\<forall>r. OutputS3Region s3 = Some r \<longrightarrow> OutputS3Region y = Some r)"
      by (simp add: StringValue_def)
  qed
qed

text \<open>
  C5 on a location with all three fields, where the round trip gives the location back,
  and on the nil location.
\<close>

theorem C5_expand_flatten_round_trip_witness:
  "expandAssociationOutputLocation
     (as_interface_list (flattenAssociationOutputLocation
        (Some \<lparr>S3Location = Some \<lparr>OutputS3BucketName = Some ''logs'',
           OutputS3KeyPrefix = Some ''ssm/'', OutputS3Region = Some ''eu-west-1''\<rparr>\<rparr>))) =
   Inr (Some \<lparr>S3Location = Some \<lparr>OutputS3BucketName = Some ''logs'',
           OutputS3KeyPrefix = Some ''ssm/'', OutputS3Region = Some ''eu-west-1''\<rparr>\<rparr>) \<and>
   expandAssociationOutputLocation
     (as_interface_list (flattenAssociationOutputLocation None)) = Inr None"
proof -
  let ?s3 = "\<lparr>OutputS3BucketName = Some ''logs'',
           OutputS3KeyPrefix = Some ''ssm/'', OutputS3Region = Some ''eu-west-1''\<rparr>"
  let ?x = "Some \<lparr>S3Location = Some ?s3\<rparr>"
  from C5_expand_flatten_round_trip [of ?x, THEN conjunct2, THEN spec, THEN spec,
      of "\<lparr>S3Location = Some ?s3\<rparr>" ?s3]
  obtain y where y: "expandAssociationOutputLocation
       (as_interface_list (flattenAssociationOutputLocation ?x)) =
       Inr (Some \<lparr>S3Location = Some y\<rparr>)"
    and "OutputS3BucketName y = Some ''logs''"
    and "OutputS3KeyPrefix y = Some ''ssm/''"
    and "OutputS3Region y = Some ''eu-west-1''"
    by auto
  then have "y = ?s3" by (cases y) simp
  with y have a: "expandAssociationOutputLocation
       (as_interface_list (flattenAssociationOutputLocation ?x)) =
       Inr (Some \<lparr>S3Location = Some ?s3\<rparr>)"
    by simp
  from C5_expand_flatten_round_trip [of None]
  have b: "expandAssociationOutputLocation
     (as_interface_list (flattenAssociationOutputLocation None)) = Inr None"
    by simp
  from a b show ?thesis by (rule conjI)
qed

subsection \<open>The configuration reader and the request construction\<close>

lemma GetOk_Some: "GetOk zero field = Some v \<Longrightarrow> field = Some v \<and> v \<noteq> zero"
  by (simp add: GetOk_def split: option.splits if_splits)

lemma GetOk_None: "field = None \<Longrightarrow> GetOk zero field = None"
  by (simp add: GetOk_def)

lemma expandDocumentParameters_panic:
  "expandDocumentParameters params = Inl p \<Longrightarrow> p = TypeAssertionFailed"
  using loop_result [of params Map.empty] loop_panics [of params Map.empty]
  by (cases "list_all (\<lambda>(k, v). is_string v) params") (simp_all add: expandDocumentParameters_def)

lemma map_sum_id_Inl: "(map_sum id g r = Inl p) = (r = Inl p)"
  by (cases r) simp_all

lemma createAssociationInput_Inl:
  "createAssociationInput conn d = Inl p \<Longrightarrow>
     (\<exists>v. GetOk [] (parameters d) = Some v \<and> expandDocumentParameters v = Inl p) \<or>
     (\<exists>v. GetOk [] (output_location d) = Some v \<and>
          expandAssociationOutputLocation (Some v) = Inl p)"
  by (cases "GetOk [] (parameters d)"; cases "GetOk [] (output_location d)")
    (simp_all add: createAssociationInput_def map_sum_id_Inl split: sum.splits)

lemma updateAssociationInput_Inl:
  "updateAssociationInput conn d = Inl p \<Longrightarrow>
     (\<exists>v. GetOk [] (parameters d) = Some v \<and> expandDocumentParameters v = Inl p) \<or>
     (\<exists>v. GetOk [] (output_location d) = Some v \<and>
          expandAssociationOutputLocation (Some v) = Inl p)"
  by (cases "GetOk [] (parameters d)"; cases "GetOk [] (output_location d)")
    (simp_all add: updateAssociationInput_def map_sum_id_Inl split: sum.splits)

lemma expand_GetOk_no_index_panic:
  "GetOk [] field = Some v \<Longrightarrow> expandAssociationOutputLocation (Some v) \<noteq> Inl IndexOutOfRange"
  by (auto simp: expand_IndexOutOfRange_iff dest: GetOk_Some)

lemma createAssociationInput_no_index_panic:
  "createAssociationInput conn d \<noteq> Inl IndexOutOfRange"
  using createAssociationInput_Inl [of conn d IndexOutOfRange]
  by (auto dest: expandDocumentParameters_panic expand_GetOk_no_index_panic)

lemma updateAssociationInput_no_index_panic:
  "updateAssociationInput conn d \<noteq> Inl IndexOutOfRange"
  using updateAssociationInput_Inl [of conn d IndexOutOfRange]
  by (auto dest: expandDocumentParameters_panic expand_GetOk_no_index_panic)

lemma create_panic: "resourceAssociationCreate conn meta d = Inl p \<Longrightarrow> createAssociationInput conn d = Inl p"
  by (simp add: resourceAssociationCreate_def split: sum.splits)

lemma update_panic: "resourceAssociationUpdate conn meta d = Inl p \<Longrightarrow> updateAssociationInput conn d = Inl p"
  by (simp add: resourceAssociationUpdate_def split: sum.splits)

text \<open>
  Claim C9. \<open>expandAssociationOutputLocation\<close> returns nil for the nil list and panics
  with an index out of range on the empty list that is not nil, and on no other input.
  The handlers call it only with a value for which \<open>GetOk\<close> reported \<open>ok\<close>, which is
  never empty, so neither the construction of the two requests nor the create and update
  handlers end in that panic.
\<close>

theorem C9_expand_index_out_of_range:
  "expandAssociationOutputLocation None = Inr None \<and>
   expandAssociationOutputLocation (Some []) = Inl IndexOutOfRange \<and>
   (\<forall>config. expandAssociationOutputLocation config = Inl IndexOutOfRange \<longrightarrow> config = Some []) \<and>
   (\<forall>v. GetOk [] (output_location d) = Some v \<longrightarrow>
        v \<noteq> [] \<and> expandAssociationOutputLocation (Some v) \<noteq> Inl IndexOutOfRange) \<and>
   createAssociationInput conn d \<noteq> Inl IndexOutOfRange \<and>
   updateAssociationInput conn d \<noteq> Inl IndexOutOfRange \<and>
   resourceAssociationCreate conn meta d \<noteq> Inl IndexOutOfRange \<and>
   resourceAssociationUpdate conn meta d \<noteq> Inl IndexOutOfRange"
proof (intro conjI allI impI)
  show "expandAssociationOutputLocation None = Inr None"
    by (simp add: expandAssociationOutputLocation_def)
  show "expandAssociationOutputLocation (Some []) = Inl IndexOutOfRange"
    by (simp add: expandAssociationOutputLocation_def)
  show "config = Some []" if "expandAssociationOutputLocation config = Inl IndexOutOfRange" for config
    using that by (simp add: expand_IndexOutOfRange_iff)
  show "v \<noteq> []" if "GetOk [] (output_location d) = Some v" for v
    using GetOk_Some [OF that] by simp
  show "expandAssociationOutputLocation (Some v) \<noteq> Inl IndexOutOfRange"
    if "GetOk [] (output_location d) = Some v" for v
    using that by (rule expand_GetOk_no_index_panic)
  show "createAssociationInput conn d \<noteq> Inl IndexOutOfRange"
    by (rule createAssociationInput_no_index_panic)
  show "updateAssociationInput conn d \<noteq> Inl IndexOutOfRange"
    by (rule updateAssociationInput_no_index_panic)
  show "resourceAssociationCreate conn meta d \<noteq> Inl IndexOutOfRange"
    using create_panic createAssociationInput_no_index_panic by blast
  show "resourceAssociationUpdate conn meta d \<noteq> Inl IndexOutOfRange"
    using update_panic updateAssociationInput_no_index_panic by blast
qed

text \<open>
  C9 on concrete data: an \<open>output_location\<close> set to the empty list is not \<open>ok\<close> and is
  not expanded; a list of one map is.
\<close>

theorem C9_expand_index_out_of_range_witness:
  "expandAssociationOutputLocation (Some []) = Inl IndexOutOfRange \<and>
   GetOk [] (output_location (sample_data\<lparr>output_location := Some []\<rparr>)) = None \<and>
   GetOk [] (output_location (sample_data\<lparr>output_location :=
       Some [VMap [(''s3_bucket_name'', VString ''logs'')]]\<rparr>)) =
     Some [VMap [(''s3_bucket_name'', VString ''logs'')]] \<and>
   expandAssociationOutputLocation (Some [VMap [(''s3_bucket_name'', VString ''logs'')]])
     \<noteq> Inl IndexOutOfRange \<and>
   createAssociationInput (sample_env (Inl sample_not_found) (Inl sample_not_found) None)
     (sample_data\<lparr>output_location := Some []\<rparr>) \<noteq> Inl IndexOutOfRange"
proof -
  let ?v = "[VMap [(''s3_bucket_name'', VString ''logs'')]]"
  let ?d = "sample_data\<lparr>output_location := Some ?v\<rparr>"
  have g: "GetOk [] (output_location ?d) = Some ?v"
    by (simp add: GetOk_def)
  have e: "GetOk [] (output_location (sample_data\<lparr>output_location := Some []\<rparr>)) = None"
    by (simp add: GetOk_def)
  from C9_expand_index_out_of_range
    [of ?d "sample_env (Inl sample_not_found) (Inl sample_not_found) None" sample_meta]
  have "expandAssociationOutputLocation (Some []) = Inl IndexOutOfRange"
    and "expandAssociationOutputLocation (Some ?v) \<noteq> Inl IndexOutOfRange"
    using g by blast+
  moreover from C9_expand_index_out_of_range
    [of "sample_data\<lparr>output_location := Some []\<rparr>"
        "sample_env (Inl sample_not_found) (Inl sample_not_found) None" sample_meta]
  have "createAssociationInput (sample_env (Inl sample_not_found) (Inl sample_not_found) None)
     (sample_data\<lparr>output_location := Some []\<rparr>) \<noteq> Inl IndexOutOfRange"
    by blast
  ultimately show ?thesis using g e by blast
qed

subsection \<open>The read and delete handlers\<close>

lemma read_calls: "calls (resourceAssociationRead conn meta d) = [FindAssociationByIdCall (rd_Id d)]"
  by (simp add: resourceAssociationRead_def Let_def split: sum.splits option.splits)

lemma read_not_found_steady:
  "FindAssociationById conn (rd_Id d) = Inl e \<Longrightarrow> NotFound e \<Longrightarrow> \<not> IsNewResource d \<Longrightarrow>
   resourceAssociationRead conn meta d =
     \<lparr>data = SetId [] d, diags = [], calls = [FindAssociationByIdCall (rd_Id d)]\<rparr>"
  by (simp add: resourceAssociationRead_def)

lemma read_lookup_error:
  "FindAssociationById conn (rd_Id d) = Inl e \<Longrightarrow> IsNewResource d \<or> \<not> NotFound e \<Longrightarrow>
   resourceAssociationRead conn meta d =
     \<lparr>data = d,
      diags = [DiagError (''reading SSM Association ('' @ rd_Id d @ ''): '' @ Error e)],
      calls = [FindAssociationByIdCall (rd_Id d)]\<rparr>"
  by (auto simp: resourceAssociationRead_def AppendErrorf_def)

lemma read_found_arn:
  "FindAssociationById conn (rd_Id d) = Inr association \<Longrightarrow>
   arn (data (resourceAssociationRead conn meta d)) =
     Some (ARN_String \<lparr>ARN_Partition = Partition meta, ARN_Service = ''ssm'',
        ARN_Region = Region meta, ARN_AccountID = AccountID meta,
        ARN_Resource = ''association/'' @ StringValue (AssociationId association)\<rparr>)"
  by (simp add: resourceAssociationRead_def Let_def split: option.splits)

lemma read_found_Id:
  "FindAssociationById conn (rd_Id d) = Inr association \<Longrightarrow>
   rd_Id (data (resourceAssociationRead conn meta d)) = rd_Id d"
  by (simp add: resourceAssociationRead_def Let_def split: option.splits)

lemma read_Id: "rd_Id (data (resourceAssociationRead conn meta d)) \<in> {rd_Id d, []}"
proof (cases "FindAssociationById conn (rd_Id d)")
  case (Inl e)
  then show ?thesis
    by (simp add: resourceAssociationRead_def SetId_def)
next
  case (Inr association)
  then show ?thesis by (simp add: read_found_Id)
qed

lemma HasPrefix_refl: "HasPrefix s s"
  by (induction s) simp_all

lemma Contains_refl: "Contains s s"
  by (cases s) (simp_all add: HasPrefix_refl)

text \<open>
  Claim C1. When the lookup of \<open>resourceAssociationRead\<close> fails with a not-found error:
  for a resource that is not newly created the identifier is set to the empty string,
  nothing else of the resource data changes and no diagnostic is returned; for a newly
  created resource the resource data is left as it is and the error is returned as a
  diagnostic.
\<close>

theorem C1_read_not_found:
  assumes "FindAssociationById conn (rd_Id d) = Inl e" and "NotFound e"
  shows "(\<not> IsNewResource d \<longrightarrow>
            data (resourceAssociationRead conn meta d) = d\<lparr>rd_Id := []\<rparr> \<and>
            diags (resourceAssociationRead conn meta d) = []) \<and>
         (IsNewResource d \<longrightarrow>
            data (resourceAssociationRead conn meta d) = d \<and>
            diags (resourceAssociationRead conn meta d) =
              [DiagError (''reading SSM Association ('' @ rd_Id d @ ''): '' @ Error e)])"
  using assms by (simp add: read_not_found_steady read_lookup_error SetId_def)

text \<open>C1 on a not-found lookup, for an existing and for a newly created resource.\<close>

theorem C1_read_not_found_witness:
  "FindAssociationById (sample_env (Inl sample_not_found) (Inl sample_not_found) None)
     (rd_Id sample_data) = Inl sample_not_found \<and>
   NotFound sample_not_found \<and>
   \<not> IsNewResource sample_data \<and>
   IsNewResource (sample_data\<lparr>IsNewResource := True\<rparr>) \<and>
   rd_Id (data (resourceAssociationRead
     (sample_env (Inl sample_not_found) (Inl sample_not_found) None) sample_meta sample_data)) = [] \<and>
   diags (resourceAssociationRead
     (sample_env (Inl sample_not_found) (Inl sample_not_found) None) sample_meta sample_data) = [] \<and>
   diags (resourceAssociationRead
     (sample_env (Inl sample_not_found) (Inl sample_not_found) None) sample_meta
     (sample_data\<lparr>IsNewResource := True\<rparr>)) =
     [DiagError ''reading SSM Association (id-0): not found'']"
proof -
  let ?conn = "sample_env (Inl sample_not_found) (Inl sample_not_found) None"
  have f: "FindAssociationById ?conn i = Inl sample_not_found" for i
    by (simp add: sample_env_def)
  have n: "NotFound sample_not_found"
    by (simp add: NotFound_def sample_not_found_def)
  have old: "\<not> IsNewResource sample_data"
    by (simp add: sample_data_def)
  have id0: "rd_Id sample_data = ''id-0''"
    by (simp add: sample_data_def)
  have msg: "Error sample_not_found = ''not found''"
    by (simp add: sample_not_found_def)
  from C1_read_not_found [OF f n, of sample_data sample_meta] old
  have a: "data (resourceAssociationRead ?conn sample_meta sample_data) = sample_data\<lparr>rd_Id := []\<rparr>"
    and b: "diags (resourceAssociationRead ?conn sample_meta sample_data) = []"
    by simp_all
  from C1_read_not_found [OF f n, of "sample_data\<lparr>IsNewResource := True\<rparr>" sample_meta]
  have c: "diags (resourceAssociationRead ?conn sample_meta (sample_data\<lparr>IsNewResource := True\<rparr>)) =
     [DiagError ''reading SSM Association (id-0): not found'']"
    by (simp add: id0 msg)
  from f n old a b c show ?thesis by simp
qed

text \<open>
  Claim C8. After a read whose lookup found the association, the \<open>arn\<close> field is
  \<open>arn:\<close>, the client's partition, \<open>ssm\<close>, the client's region, the client's account id
  and \<open>association/\<close> followed by the association id of the response, joined by colons.
\<close>

theorem C8_read_arn:
  assumes "FindAssociationById conn (rd_Id d) = Inr association"
  shows "arn (data (resourceAssociationRead conn meta d)) =
     Some (''arn:'' @ Partition meta @ '':ssm:'' @ Region meta @ '':'' @ AccountID meta @
           '':association/'' @ StringValue (AssociationId association))"
  using assms by (simp add: read_found_arn ARN_String_def)

text \<open>C8 for the sample client and the sample association.\<close>

theorem C8_read_arn_witness:
  "FindAssociationById (sample_env (Inl sample_not_found) (Inr sample_association) None)
     (rd_Id sample_data) = Inr sample_association \<and>
   arn (data (resourceAssociationRead
     (sample_env (Inl sample_not_found) (Inr sample_association) None) sample_meta sample_data)) =
   Some ''arn:aws:ssm:eu-west-1:123456789012:association/id-1''"
proof -
  let ?conn = "sample_env (Inl sample_not_found) (Inr sample_association) None"
  have f: "FindAssociationById ?conn (rd_Id sample_data) = Inr sample_association"
    by (simp add: sample_env_def)
  from C8_read_arn [OF f, of sample_meta] f show ?thesis
    by (simp add: sample_meta_def sample_association_def StringValue_def)
qed

text \<open>
  Claim C4. When \<open>DeleteAssociation\<close> fails: an error whose code is
  \<open>AssociationDoesNotExist\<close> passes the handler's test (the code contains that string);
  for every error that passes the test the handler returns no diagnostic and leaves the
  resource data as it is; every other error is returned as an error diagnostic.
\<close>

theorem C4_delete_does_not_exist:
  assumes "DeleteAssociationWithContext conn (Some (rd_Id d)) = Some e"
  shows "(Code e = Some ErrCodeAssociationDoesNotExist \<longrightarrow>
            ErrCodeContains e ErrCodeAssociationDoesNotExist) \<and>
         (ErrCodeContains e ErrCodeAssociationDoesNotExist \<longrightarrow>
            diags (resourceAssociationDelete conn meta d) = [] \<and>
            data (resourceAssociationDelete conn meta d) = d) \<and>
         (\<not> ErrCodeContains e ErrCodeAssociationDoesNotExist \<longrightarrow>
            diags (resourceAssociationDelete conn meta d) =
              [DiagError (''deleting SSM association: '' @ Error e)])"
  using assms
  by (simp add: resourceAssociationDelete_def AppendErrorf_def ErrCodeContains_def Contains_refl)

text \<open>C4 on an error with the code \<open>AssociationDoesNotExist\<close> and on one with no code.\<close>

theorem C4_delete_does_not_exist_witness:
  "DeleteAssociationWithContext
     (sample_env (Inl sample_not_found) (Inl sample_not_found) (Some sample_does_not_exist))
     (Some (rd_Id sample_data)) = Some sample_does_not_exist \<and>
   Code sample_does_not_exist = Some ErrCodeAssociationDoesNotExist \<and>
   diags (resourceAssociationDelete
     (sample_env (Inl sample_not_found) (Inl sample_not_found) (Some sample_does_not_exist))
     sample_meta sample_data) = [] \<and>
   DeleteAssociationWithContext
     (sample_env (Inl sample_not_found) (Inl sample_not_found) (Some sample_not_found))
     (Some (rd_Id sample_data)) = Some sample_not_found \<and>
   \<not> ErrCodeContains sample_not_found ErrCodeAssociationDoesNotExist \<and>
   diags (resourceAssociationDelete
     (sample_env (Inl sample_not_found) (Inl sample_not_found) (Some sample_not_found))
     sample_meta sample_data) = [DiagError ''deleting SSM association: not found'']"
proof -
  let ?gone = "sample_env (Inl sample_not_found) (Inl sample_not_found) (Some sample_does_not_exist)"
  let ?other = "sample_env (Inl sample_not_found) (Inl sample_not_found) (Some sample_not_found)"
  have g: "DeleteAssociationWithContext ?gone (Some (rd_Id sample_data)) = Some sample_does_not_exist"
    by (simp add: sample_env_def)
  have c: "Code sample_does_not_exist = Some ErrCodeAssociationDoesNotExist"
    by (simp add: sample_does_not_exist_def ErrCodeAssociationDoesNotExist_def)
  have ok: "diags (resourceAssociationDelete ?gone sample_meta sample_data) = []"
    using C4_delete_does_not_exist [OF g, of sample_meta] c by simp
  have h: "DeleteAssociationWithContext ?other (Some (rd_Id sample_data)) = Some sample_not_found"
    by (simp add: sample_env_def)
  have n: "\<not> ErrCodeContains sample_not_found ErrCodeAssociationDoesNotExist"
    by (simp add: ErrCodeContains_def sample_not_found_def)
  have bad: "diags (resourceAssociationDelete ?other sample_meta sample_data) =
      [DiagError ''deleting SSM association: not found'']"
    using C4_delete_does_not_exist [OF h, of sample_meta] n
    by (simp add: sample_not_found_def)
  from g c ok h n bad show ?thesis by simp
qed

subsection \<open>The create handler\<close>

lemma read_no_wait: "waitAssociationSuccessCall i t \<notin> set (calls (resourceAssociationRead conn meta d))"
  by (simp add: read_calls)

lemma SetId_wait [simp]: "wait_for_success_timeout_seconds (SetId v d) = wait_for_success_timeout_seconds d"
  by (simp add: SetId_def)

lemma SetId_rd_Id [simp]: "rd_Id (SetId v d) = v"
  by (simp add: SetId_def)

lemma create_wait_call:
  assumes "resourceAssociationCreate conn meta d = Inr r"
    and "waitAssociationSuccessCall i t \<in> set (calls r)"
  shows "\<exists>v. GetOk 0 (wait_for_success_timeout_seconds d) = Some v"
proof (rule ccontr)
  assume "\<nexists>v. GetOk 0 (wait_for_success_timeout_seconds d) = Some v"
  then have none: "GetOk 0 (wait_for_success_timeout_seconds d) = None"
    by (cases "GetOk 0 (wait_for_success_timeout_seconds d)") simp_all
  from assms(1) have "waitAssociationSuccessCall i t \<notin> set (calls r)"
    by (auto simp: resourceAssociationCreate_def Let_def none after_calls_def read_calls
        split: sum.splits option.splits)
  with assms(2) show False by simp
qed

lemma create_nil_description:
  assumes "createAssociationInput conn d = Inr input"
    and "CreateAssociationWithContext conn input = Inr resp"
    and "Output_AssociationDescription resp = None"
  shows "resourceAssociationCreate conn meta d =
           Inr \<lparr>data = d, diags = [DiagError ''AssociationDescription was nil''],
                calls = [CreateAssociationCall input]\<rparr>"
  using assms by (simp add: resourceAssociationCreate_def AppendErrorf_def)

lemma data_after_calls [simp]: "data (after_calls cs r) = data r"
  by (simp add: after_calls_def)

lemma create_Id_changed:
  assumes "resourceAssociationCreate conn meta d = Inr r"
    and "rd_Id (data r) \<noteq> rd_Id d"
  shows "\<exists>input resp description.
           createAssociationInput conn d = Inr input \<and>
           CreateAssociationWithContext conn input = Inr resp \<and>
           Output_AssociationDescription resp = Some description \<and>
           rd_Id (data r) \<in> {StringValue (AssociationId description), []}"
proof -
  from assms(1) obtain input where input: "createAssociationInput conn d = Inr input"
    by (cases "createAssociationInput conn d") (simp_all add: resourceAssociationCreate_def)
  show ?thesis
  proof (cases "CreateAssociationWithContext conn input")
    case (Inl e)
    with assms input show ?thesis
      by (auto simp: resourceAssociationCreate_def)
  next
    case (Inr resp)
    show ?thesis
    proof (cases "Output_AssociationDescription resp")
      case None
      with assms input Inr show ?thesis
        by (auto simp: resourceAssociationCreate_def)
    next
      case (Some description)
      let ?d1 = "SetId (StringValue (AssociationId description)) d"
      have "rd_Id (data (resourceAssociationRead conn meta ?d1)) \<in>
              {StringValue (AssociationId description), []}"
        using read_Id [of conn meta ?d1] by simp
      with assms(1) input Inr Some
      have "rd_Id (data r) \<in> {StringValue (AssociationId description), []}"
        by (auto simp: resourceAssociationCreate_def Let_def split: option.splits)
      with input Inr Some show ?thesis by blast
    qed
  qed
qed

lemma create_then_read:
  assumes "createAssociationInput conn d = Inr input"
    and "CreateAssociationWithContext conn input = Inr resp"
    and "Output_AssociationDescription resp = Some description"
    and "GetOk 0 (wait_for_success_timeout_seconds d) = None"
  shows "resourceAssociationCreate conn meta d =
           Inr (after_calls [CreateAssociationCall input]
                  (resourceAssociationRead conn meta
                     (SetId (StringValue (AssociationId description)) d)))"
  using assms by (simp add: resourceAssociationCreate_def)

lemma create_waits:
  assumes "createAssociationInput conn d = Inr input"
    and "CreateAssociationWithContext conn input = Inr resp"
    and "Output_AssociationDescription resp = Some description"
    and "GetOk 0 (wait_for_success_timeout_seconds d) = Some v"
  shows "\<exists>r. resourceAssociationCreate conn meta d = Inr r \<and>
             waitAssociationSuccessCall (StringValue (AssociationId description))
               (ParseDuration_seconds v) \<in> set (calls r)"
  using assms
  by (simp add: resourceAssociationCreate_def Let_def after_calls_def split: option.splits)

lemma sample_createAssociationInput:
  "createAssociationInput conn (sample_data\<lparr>wait_for_success_timeout_seconds := w\<rparr>) =
     Inr sample_input"
  by (simp add: createAssociationInput_def GetOk_def Get_def sample_data_def sample_input_def)

text \<open>
  Claim C2. In every create call that returns (a panic of the request's construction
  comes before any remote call): when \<open>wait_for_success_timeout_seconds\<close> is absent or
  zero, no call of \<open>waitAssociationSuccess\<close> is among the calls issued; and whenever such
  a call is among them, the configured timeout is a value other than zero.
\<close>

theorem C2_create_wait_only_for_nonzero_timeout:
  assumes "resourceAssociationCreate conn meta d = Inr r"
  shows "((wait_for_success_timeout_seconds d = None \<or>
            wait_for_success_timeout_seconds d = Some 0) \<longrightarrow>
            (\<forall>i t. waitAssociationSuccessCall i t \<notin> set (calls r))) \<and>
         (\<forall>i t. waitAssociationSuccessCall i t \<in> set (calls r) \<longrightarrow>
            (\<exists>v. wait_for_success_timeout_seconds d = Some v \<and> v \<noteq> 0))"
proof (intro conjI impI allI)
  fix i t
  assume "waitAssociationSuccessCall i t \<in> set (calls r)"
  from create_wait_call [OF assms this]
  show "\<exists>v. wait_for_success_timeout_seconds d = Some v \<and> v \<noteq> 0"
    by (auto dest: GetOk_Some)
next
  fix i t
  assume z: "wait_for_success_timeout_seconds d = None \<or> wait_for_success_timeout_seconds d = Some 0"
  show "waitAssociationSuccessCall i t \<notin> set (calls r)"
  proof
    assume "waitAssociationSuccessCall i t \<in> set (calls r)"
    from create_wait_call [OF assms this] z show False
      by (auto dest: GetOk_Some)
  qed
qed

text \<open>
  C2 on a creation that succeeds: with the timeout 0 the poller is not called, with the
  timeout 30 it is called with the new identifier and 30 seconds.
\<close>

theorem C2_create_wait_only_for_nonzero_timeout_witness:
  "wait_for_success_timeout_seconds
      (sample_data\<lparr>wait_for_success_timeout_seconds := Some 0\<rparr>) = Some 0 \<and>
   (\<exists>r. resourceAssociationCreate
          (sample_env (Inr \<lparr>Output_AssociationDescription = Some sample_association\<rparr>)
             (Inr sample_association) None)
          sample_meta (sample_data\<lparr>wait_for_success_timeout_seconds := Some 0\<rparr>) = Inr r \<and>
        waitAssociationSuccessCall ''id-1'' 0 \<notin> set (calls r)) \<and>
   (\<exists>r. resourceAssociationCreate
          (sample_env (Inr \<lparr>Output_AssociationDescription = Some sample_association\<rparr>)
             (Inr sample_association) None)
          sample_meta (sample_data\<lparr>wait_for_success_timeout_seconds := Some 30\<rparr>) = Inr r \<and>
        waitAssociationSuccessCall ''id-1'' 30000000000 \<in> set (calls r) \<and>
        (\<exists>v. wait_for_success_timeout_seconds
                (sample_data\<lparr>wait_for_success_timeout_seconds := Some 30\<rparr>) = Some v \<and> v \<noteq> 0))"
proof -
  let ?conn = "sample_env (Inr \<lparr>Output_AssociationDescription = Some sample_association\<rparr>)
             (Inr sample_association) None"
  let ?d0 = "sample_data\<lparr>wait_for_success_timeout_seconds := Some 0\<rparr>"
  let ?d30 = "sample_data\<lparr>wait_for_success_timeout_seconds := Some 30\<rparr>"
  have c: "CreateAssociationWithContext ?conn sample_input =
             Inr \<lparr>Output_AssociationDescription = Some sample_association\<rparr>"
    by (simp add: sample_env_def)
  have z: "wait_for_success_timeout_seconds ?d0 = Some 0"
    by simp
  obtain r0 where r0: "resourceAssociationCreate ?conn sample_meta ?d0 = Inr r0"
    using create_then_read [where conn = ?conn and d = ?d0 and meta = sample_meta,
        OF sample_createAssociationInput c]
    by (simp add: GetOk_def)
  from C2_create_wait_only_for_nonzero_timeout [OF r0] z
  have a: "waitAssociationSuccessCall ''id-1'' 0 \<notin> set (calls r0)"
    by blast
  obtain r30 where r30: "resourceAssociationCreate ?conn sample_meta ?d30 = Inr r30"
    and w: "waitAssociationSuccessCall ''id-1'' 30000000000 \<in> set (calls r30)"
    using create_waits [where conn = ?conn and d = ?d30 and meta = sample_meta and v = 30,
        OF sample_createAssociationInput c]
    by (auto simp: GetOk_def sample_association_def StringValue_def ParseDuration_seconds_def)
  from C2_create_wait_only_for_nonzero_timeout [OF r30] w
  have b: "\<exists>v. wait_for_success_timeout_seconds ?d30 = Some v \<and> v \<noteq> 0"
    by blast
  from z r0 a r30 w b show ?thesis by blast
qed

text \<open>
  Claim C10. When \<open>CreateAssociation\<close> succeeds with a nil \<open>AssociationDescription\<close>,
  the create handler returns the error diagnostic and leaves the resource data, the
  identifier included, as it was, with no further call. Whenever the identifier differs
  after a create call, the response carried a description, and the identifier is the
  association id of that description (or the empty string, when the read that follows
  cleared it).
\<close>

theorem C10_create_nil_description:
  "(\<forall>input resp.
      createAssociationInput conn d = Inr input \<and>
      CreateAssociationWithContext conn input = Inr resp \<and>
      Output_AssociationDescription resp = None \<longrightarrow>
      resourceAssociationCreate conn meta d =
        Inr \<lparr>data = d, diags = [DiagError ''AssociationDescription was nil''],
             calls = [CreateAssociationCall input]\<rparr>) \<and>
   (\<forall>r. resourceAssociationCreate conn meta d = Inr r \<and> rd_Id (data r) \<noteq> rd_Id d \<longrightarrow>
      (\<exists>input resp description.
         createAssociationInput conn d = Inr input \<and>
         CreateAssociationWithContext conn input = Inr resp \<and>
         Output_AssociationDescription resp = Some description \<and>
         rd_Id (data r) \<in> {StringValue (AssociationId description), []}))"
  using create_nil_description create_Id_changed by blast

text \<open>C10 on a response without a description, and on one with the sample association.\<close>

theorem C10_create_nil_description_witness:
  "createAssociationInput
     (sample_env (Inr \<lparr>Output_AssociationDescription = None\<rparr>) (Inr sample_association) None)
     sample_data = Inr sample_input \<and>
   resourceAssociationCreate
     (sample_env (Inr \<lparr>Output_AssociationDescription = None\<rparr>) (Inr sample_association) None)
     sample_meta sample_data =
     Inr \<lparr>data = sample_data, diags = [DiagError ''AssociationDescription was nil''],
          calls = [CreateAssociationCall sample_input]\<rparr> \<and>
   (\<exists>r. resourceAssociationCreate
          (sample_env (Inr \<lparr>Output_AssociationDescription = Some sample_association\<rparr>)
             (Inr sample_association) None)
          sample_meta sample_data = Inr r \<and>
        rd_Id (data r) = ''id-1'' \<and> rd_Id sample_data = ''id-0'' \<and>
        (\<exists>description.
           CreateAssociationWithContext
             (sample_env (Inr \<lparr>Output_AssociationDescription = Some sample_association\<rparr>)
                (Inr sample_association) None) sample_input =
             Inr \<lparr>Output_AssociationDescription = Some description\<rparr> \<and>
           ''id-1'' \<in> {StringValue (AssociationId description), []}))"
proof -
  let ?nil = "sample_env (Inr \<lparr>Output_AssociationDescription = None\<rparr>) (Inr sample_association) None"
  let ?ok = "sample_env (Inr \<lparr>Output_AssociationDescription = Some sample_association\<rparr>)
             (Inr sample_association) None"
  have same: "sample_data\<lparr>wait_for_success_timeout_seconds := None\<rparr> = sample_data"
    by (simp add: sample_data_def)
  have i: "createAssociationInput conn sample_data = Inr sample_input" for conn
    using sample_createAssociationInput [of conn None] by (simp add: same)
  have c: "CreateAssociationWithContext ?nil sample_input = Inr \<lparr>Output_AssociationDescription = None\<rparr>"
    by (simp add: sample_env_def)
  from C10_create_nil_description [of ?nil sample_data sample_meta] i c
  have a: "resourceAssociationCreate ?nil sample_meta sample_data =
     Inr \<lparr>data = sample_data, diags = [DiagError ''AssociationDescription was nil''],
          calls = [CreateAssociationCall sample_input]\<rparr>"
    by simp
  have c': "CreateAssociationWithContext ?ok sample_input =
      Inr \<lparr>Output_AssociationDescription = Some sample_association\<rparr>"
    by (simp add: sample_env_def)
  have w: "GetOk 0 (wait_for_success_timeout_seconds sample_data) = None"
    by (simp add: GetOk_def sample_data_def)
  have f: "FindAssociationById ?ok i = Inr sample_association" for i
    by (simp add: sample_env_def)
  obtain r where r: "resourceAssociationCreate ?ok sample_meta sample_data = Inr r"
    and id1: "rd_Id (data r) = ''id-1''"
    using create_then_read [where meta = sample_meta and description = sample_association,
        OF i c' _ w]
      read_found_Id [where meta = sample_meta and d = "SetId ''id-1'' sample_data", OF f]
    by (simp add: sample_association_def StringValue_def)
  have id0: "rd_Id sample_data = ''id-0''"
    by (simp add: sample_data_def)
  from C10_create_nil_description [of ?ok sample_data sample_meta] r id1 id0
  obtain input resp description where
    "createAssociationInput ?ok sample_data = Inr input"
    "CreateAssociationWithContext ?ok input = Inr resp"
    "Output_AssociationDescription resp = Some description"
    "rd_Id (data r) \<in> {StringValue (AssociationId description), []}"
    by auto
  with i c' id1 have "\<exists>description.
           CreateAssociationWithContext ?ok sample_input =
             Inr \<lparr>Output_AssociationDescription = Some description\<rparr> \<and>
           ''id-1'' \<in> {StringValue (AssociationId description), []}"
    by auto
  with i a r id1 id0 show ?thesis by blast
qed

subsection \<open>The expansion of the parameters\<close>

lemma expandDocumentParameters_strings:
  assumes "distinct (map fst params)" and "list_all (\<lambda>(k, v). is_string v) params"
  shows "expandDocumentParameters params =
           Inr (\<lambda>k. case map_of params k of
                       Some (VString s) \<Rightarrow> Some [Some s]
                     | _ \<Rightarrow> None)"
proof -
  have "(\<lambda>k. case map_of (rev params) k of
               Some (VString s) \<Rightarrow> Some [Some s]
             | Some _ \<Rightarrow> None
             | None \<Rightarrow> Map.empty k) =
        (\<lambda>k. case map_of params k of
               Some (VString s) \<Rightarrow> Some [Some s]
             | _ \<Rightarrow> None)"
    by (simp add: map_of_rev_distinct [OF assms(1)] fun_eq_iff split: option.splits iface.splits)
  with loop_result [OF assms(2), of Map.empty] show ?thesis
    by (simp add: expandDocumentParameters_def)
qed

lemma strings_lookup:
  assumes "list_all (\<lambda>(k, v). is_string v) params" and "map_of params k = Some v"
  shows "\<exists>s. v = VString s"
proof -
  from assms(2) have "(k, v) \<in> set params" by (rule map_of_SomeD)
  with assms(1) have "is_string v" by (auto simp: list_all_iff)
  then show ?thesis by (cases v) simp_all
qed

text \<open>
  Claim C6. For a parameter map (its entries in any enumeration order, the keys distinct
  as in every Go map) whose values are strings, as the schema of \<open>parameters\<close> has them,
  \<open>expandDocumentParameters\<close> returns a map with exactly the keys of the argument, in
  which every key is mapped to the one-element list holding its configured string; and
  every other enumeration order of the same entries gives the same result.
\<close>

theorem C6_expandDocumentParameters:
  assumes "distinct (map fst params)" and "list_all (\<lambda>(k, v). is_string v) params"
  shows "\<exists>docParams.
           expandDocumentParameters params = Inr docParams \<and>
           dom docParams = fst ` set params \<and>
           (\<forall>k s. (k, VString s) \<in> set params \<longrightarrow> docParams k = Some [Some s]) \<and>
           (\<forall>params'. distinct (map fst params') \<and> set params' = set params \<longrightarrow>
              expandDocumentParameters params' = Inr docParams)"
proof -
  let ?m = "\<lambda>k. case map_of params k of Some (VString s) \<Rightarrow> Some [Some s] | _ \<Rightarrow> None"
  have r: "expandDocumentParameters params = Inr ?m"
    using assms by (rule expandDocumentParameters_strings)
  have dom: "dom ?m = fst ` set params"
  proof (rule set_eqI)
    fix k
    show "k \<in> dom ?m \<longleftrightarrow> k \<in> fst ` set params"
    proof (cases "map_of params k")
      case None
      then have "k \<notin> fst ` set params" by (simp add: map_of_eq_None_iff)
      moreover from None have "k \<notin> dom ?m" by (simp add: dom_def)
      ultimately show ?thesis by simp
    next
      case (Some v)
      from strings_lookup [OF assms(2) Some] obtain s where "v = VString s" ..
      with Some show ?thesis
        by (auto simp: dom_def dest: map_of_SomeD intro: rev_image_eqI)
    qed
  qed
  have val: "?m k = Some [Some s]" if "(k, VString s) \<in> set params" for k s
    using that assms(1) by simp
  have perm: "expandDocumentParameters params' = Inr ?m"
    if "distinct (map fst params') \<and> set params' = set params" for params'
  proof -
    from that assms(2) have "list_all (\<lambda>(k, v). is_string v) params'"
      by (simp add: list_all_iff)
    moreover from that assms(1) have "map_of params' = map_of params"
      by (simp add: map_of_inject_set)
    ultimately show ?thesis
      using that by (simp add: expandDocumentParameters_strings)
  qed
  from r dom val perm show ?thesis by blast
qed

text \<open>C6 on a map of two parameters, enumerated in both orders.\<close>

theorem C6_expandDocumentParameters_witness:
  "distinct (map fst [(''Operation'', VString ''Scan''), (''RebootOption'', VString ''NoReboot'')]) \<and>
   list_all (\<lambda>(k, v). is_string v)
     [(''Operation'', VString ''Scan''), (''RebootOption'', VString ''NoReboot'')] \<and>
   (\<exists>docParams.
      expandDocumentParameters
        [(''Operation'', VString ''Scan''), (''RebootOption'', VString ''NoReboot'')] = Inr docParams \<and>
      expandDocumentParameters
        [(''RebootOption'', VString ''NoReboot''), (''Operation'', VString ''Scan'')] = Inr docParams \<and>
      dom docParams = {''Operation'', ''RebootOption''} \<and>
      docParams ''Operation'' = Some [Some ''Scan''] \<and>
      docParams ''RebootOption'' = Some [Some ''NoReboot''])"
proof -
  let ?p = "[(''Operation'', VString ''Scan''), (''RebootOption'', VString ''NoReboot'')]"
  let ?q = "[(''RebootOption'', VString ''NoReboot''), (''Operation'', VString ''Scan'')]"
  have d: "distinct (map fst ?p)" by simp
  have t: "list_all (\<lambda>(k, v). is_string v) ?p" by simp
  have q: "distinct (map fst ?q) \<and> set ?q = set ?p" by auto
  from C6_expandDocumentParameters [OF d t] obtain docParams where
    "expandDocumentParameters ?p = Inr docParams"
    "dom docParams = fst ` set ?p"
    "\<forall>k s. (k, VString s) \<in> set ?p \<longrightarrow> docParams k = Some [Some s]"
    "\<forall>params'. distinct (map fst params') \<and> set params' = set ?p \<longrightarrow>
        expandDocumentParameters params' = Inr docParams"
    by blast
  with q have "expandDocumentParameters ?p = Inr docParams \<and>
      expandDocumentParameters ?q = Inr docParams \<and>
      dom docParams = {''Operation'', ''RebootOption''} \<and>
      docParams ''Operation'' = Some [Some ''Scan''] \<and>
      docParams ''RebootOption'' = Some [Some ''NoReboot'']"
    by simp
  with d t show ?thesis by blast
qed

subsection \<open>Absent fields in the requests\<close>

text \<open>
  What the two nested tests do with a key that is in the map with the empty string: the
  key prefix is copied as the empty string, the region is left nil.
\<close>

lemma expand_empty_strings:
  "expandAssociationOutputLocation
     (Some [VMap [(''s3_bucket_name'', VString b), (''s3_key_prefix'', VString []),
                  (''s3_region'', VString [])]]) =
   Inr (Some \<lparr>S3Location = Some \<lparr>OutputS3BucketName = Some b,
          OutputS3KeyPrefix = Some [], OutputS3Region = None\<rparr>\<rparr>)"
  by (simp add: expand_VMap assert_string_def string_ok_def)

lemma createAssociationInput_Inr:
  assumes "createAssociationInput conn d = Inr input"
  shows "Create_ApplyOnlyAtCronInterval input = GetOk False (apply_only_at_cron_interval d)"
    and "Create_AssociationName input = GetOk [] (association_name d)"
    and "Create_InstanceId input = GetOk [] (instance_id d)"
    and "Create_DocumentVersion input = GetOk [] (document_version d)"
    and "Create_ScheduleExpression input = GetOk [] (schedule_expression d)"
    and "Create_ComplianceSeverity input = GetOk [] (compliance_severity d)"
    and "Create_MaxConcurrency input = GetOk [] (max_concurrency d)"
    and "Create_MaxErrors input = GetOk [] (max_errors d)"
    and "Create_AutomationTargetParameterName input =
           GetOk [] (automation_target_parameter_name d)"
    and "GetOk [] (targets d) = None \<Longrightarrow> Create_Targets input = None"
    and "GetOk [] (parameters d) = None \<Longrightarrow> Create_Parameters input = None"
    and "GetOk [] (output_location d) = None \<Longrightarrow> Create_OutputLocation input = None"
    and "\<And>v. GetOk [] (output_location d) = Some v \<Longrightarrow>
           expandAssociationOutputLocation (Some v) = Inr (Create_OutputLocation input)"
  using assms
  by (auto simp: createAssociationInput_def split: sum.splits)

lemma updateAssociationInput_Inr:
  assumes "updateAssociationInput conn d = Inr input"
  shows "Update_ApplyOnlyAtCronInterval input = GetOk False (apply_only_at_cron_interval d)"
    and "Update_AssociationName input = GetOk [] (association_name d)"
    and "Update_DocumentVersion input = GetOk [] (document_version d)"
    and "Update_ScheduleExpression input = GetOk [] (schedule_expression d)"
    and "Update_ComplianceSeverity input = GetOk [] (compliance_severity d)"
    and "Update_MaxConcurrency input = GetOk [] (max_concurrency d)"
    and "Update_MaxErrors input = GetOk [] (max_errors d)"
    and "Update_AutomationTargetParameterName input =
           GetOk [] (automation_target_parameter_name d)"
    and "GetOk [] (targets d) = None \<Longrightarrow> Update_Targets input = None"
    and "GetOk [] (parameters d) = None \<Longrightarrow> Update_Parameters input = None"
    and "GetOk [] (output_location d) = None \<Longrightarrow> Update_OutputLocation input = None"
    and "\<And>v. GetOk [] (output_location d) = Some v \<Longrightarrow>
           expandAssociationOutputLocation (Some v) = Inr (Update_OutputLocation input)"
  using assms
  by (auto simp: updateAssociationInput_def split: sum.splits)

lemma GetOk_zero: "field = None \<or> field = Some zero \<Longrightarrow> GetOk zero field = None"
  by (auto simp: GetOk_def)

text \<open>
  The top-level attributes follow the \<open>ok\<close> of \<open>d.GetOk\<close>: an attribute is nil when its
  field is not set or holds the zero value of its type (as \<open>apply_only_at_cron_interval\<close>
  does by its default).
\<close>

lemma create_top_level_omitted:
  assumes "createAssociationInput conn d = Inr input"
  shows "apply_only_at_cron_interval d = None \<or> apply_only_at_cron_interval d = Some False \<Longrightarrow>
           Create_ApplyOnlyAtCronInterval input = None"
    and "association_name d = None \<or> association_name d = Some [] \<Longrightarrow>
           Create_AssociationName input = None"
    and "instance_id d = None \<or> instance_id d = Some [] \<Longrightarrow> Create_InstanceId input = None"
    and "document_version d = None \<or> document_version d = Some [] \<Longrightarrow>
           Create_DocumentVersion input = None"
    and "schedule_expression d = None \<or> schedule_expression d = Some [] \<Longrightarrow>
           Create_ScheduleExpression input = None"
    and "parameters d = None \<or> parameters d = Some [] \<Longrightarrow> Create_Parameters input = None"
    and "targets d = None \<or> targets d = Some [] \<Longrightarrow> Create_Targets input = None"
    and "output_location d = None \<or> output_location d = Some [] \<Longrightarrow>
           Create_OutputLocation input = None"
    and "compliance_severity d = None \<or> compliance_severity d = Some [] \<Longrightarrow>
           Create_ComplianceSeverity input = None"
    and "max_concurrency d = None \<or> max_concurrency d = Some [] \<Longrightarrow>
           Create_MaxConcurrency input = None"
    and "max_errors d = None \<or> max_errors d = Some [] \<Longrightarrow> Create_MaxErrors input = None"
    and "automation_target_parameter_name d = None \<or>
         automation_target_parameter_name d = Some [] \<Longrightarrow>
           Create_AutomationTargetParameterName input = None"
  by (simp_all add: createAssociationInput_Inr [OF assms] GetOk_zero)

lemma update_top_level_omitted:
  assumes "updateAssociationInput conn d = Inr input"
  shows "apply_only_at_cron_interval d = None \<or> apply_only_at_cron_interval d = Some False \<Longrightarrow>
           Update_ApplyOnlyAtCronInterval input = None"
    and "association_name d = None \<or> association_name d = Some [] \<Longrightarrow>
           Update_AssociationName input = None"
    and "document_version d = None \<or> document_version d = Some [] \<Longrightarrow>
           Update_DocumentVersion input = None"
    and "schedule_expression d = None \<or> schedule_expression d = Some [] \<Longrightarrow>
           Update_ScheduleExpression input = None"
    and "parameters d = None \<or> parameters d = Some [] \<Longrightarrow> Update_Parameters input = None"
    and "targets d = None \<or> targets d = Some [] \<Longrightarrow> Update_Targets input = None"
    and "output_location d = None \<or> output_location d = Some [] \<Longrightarrow>
           Update_OutputLocation input = None"
    and "compliance_severity d = None \<or> compliance_severity d = Some [] \<Longrightarrow>
           Update_ComplianceSeverity input = None"
    and "max_concurrency d = None \<or> max_concurrency d = Some [] \<Longrightarrow>
           Update_MaxConcurrency input = None"
    and "max_errors d = None \<or> max_errors d = Some [] \<Longrightarrow> Update_MaxErrors input = None"
    and "automation_target_parameter_name d = None \<or>
         automation_target_parameter_name d = Some [] \<Longrightarrow>
           Update_AutomationTargetParameterName input = None"
  by (simp_all add: updateAssociationInput_Inr [OF assms] GetOk_zero)

text \<open>
  The nested fields, on a block as the resource data returns it. The region is nil when
  the block's \<open>s3_region\<close> is not set; the key prefix is never nil, whatever the block
  holds: a key prefix that is not set reaches the request as the empty string.
\<close>

lemma expand_read_block:
  assumes "expandAssociationOutputLocation
             (Some (read_block output_location_keys item # rest)) = Inr location"
  shows "\<exists>s3. location = Some \<lparr>S3Location = Some s3\<rparr> \<and>
              OutputS3KeyPrefix s3 \<noteq> None \<and>
              (map_of item ''s3_key_prefix'' = None \<longrightarrow> OutputS3KeyPrefix s3 = Some []) \<and>
              (map_of item ''s3_region'' = None \<longrightarrow> OutputS3Region s3 = None)"
  using assms
  by (auto simp: read_block_def output_location_keys_def expand_VMap assert_string_def
      string_ok_def split: sum.splits option.splits iface.splits)

text \<open>
  The round trip of C5 on the route through the resource data: the fields present in the
  response reappear; a key prefix that the response does not have comes back as the empty
  string.
\<close>

lemma round_trip_through_resource_data:
  assumes "S3Location loc = Some s3" and "OutputS3Region s3 \<noteq> Some []"
  shows "expandAssociationOutputLocation
           (read_blocks output_location_keys (flattenAssociationOutputLocation (Some loc))) =
         Inr (Some \<lparr>S3Location = Some
           \<lparr>OutputS3BucketName = Some (StringValue (OutputS3BucketName s3)),
            OutputS3KeyPrefix = Some (StringValue (OutputS3KeyPrefix s3)),
            OutputS3Region = OutputS3Region s3\<rparr>\<rparr>)"
  using assms
  by (auto simp: flatten_S3 read_blocks_def read_block_def output_location_keys_def
      expand_VMap assert_string_def string_ok_def flat_item_def StringValue_def
      split: option.splits)

text \<open>
  Claim C3, at an input on which the code does not do what the claim says. The
  configuration sets the name and an output location with only the bucket name, so the
  resource data returns the block with \<open>s3_key_prefix\<close> and \<open>s3_region\<close> as \<open>""\<close>. The
  request built for \<open>CreateAssociation\<close>, and the one built for \<open>UpdateAssociation\<close>, then
  carry the key prefix as the empty string, not nil; the region, whose test at line 406
  also asks for a non-empty value, is nil.
\<close>

theorem C3_unset_key_prefix_sent_empty:
  "read_block output_location_keys [(''s3_bucket_name'', VString ''logs'')] =
     VMap [(''s3_bucket_name'', VString ''logs''), (''s3_key_prefix'', VString []),
           (''s3_region'', VString [])] \<and>
   map_sum id Create_OutputLocation
     (createAssociationInput conn
        (sample_data\<lparr>output_location := Some
           [VMap [(''s3_bucket_name'', VString ''logs''), (''s3_key_prefix'', VString []),
                  (''s3_region'', VString [])]]\<rparr>)) =
     Inr (Some \<lparr>S3Location = Some \<lparr>OutputS3BucketName = Some ''logs'',
            OutputS3KeyPrefix = Some [], OutputS3Region = None\<rparr>\<rparr>) \<and>
   map_sum id Update_OutputLocation
     (updateAssociationInput conn
        (sample_data\<lparr>output_location := Some
           [VMap [(''s3_bucket_name'', VString ''logs''), (''s3_key_prefix'', VString []),
                  (''s3_region'', VString [])]]\<rparr>)) =
     Inr (Some \<lparr>S3Location = Some \<lparr>OutputS3BucketName = Some ''logs'',
            OutputS3KeyPrefix = Some [], OutputS3Region = None\<rparr>\<rparr>)"
proof (intro conjI)
  show "read_block output_location_keys [(''s3_bucket_name'', VString ''logs'')] =
     VMap [(''s3_bucket_name'', VString ''logs''), (''s3_key_prefix'', VString []),
           (''s3_region'', VString [])]"
    by (simp add: read_block_def output_location_keys_def)
  show "map_sum id Create_OutputLocation
     (createAssociationInput conn
        (sample_data\<lparr>output_location := Some
           [VMap [(''s3_bucket_name'', VString ''logs''), (''s3_key_prefix'', VString []),
                  (''s3_region'', VString [])]]\<rparr>)) =
     Inr (Some \<lparr>S3Location = Some \<lparr>OutputS3BucketName = Some ''logs'',
            OutputS3KeyPrefix = Some [], OutputS3Region = None\<rparr>\<rparr>)"
    by (simp add: createAssociationInput_def GetOk_def sample_data_def expand_empty_strings)
  show "map_sum id Update_OutputLocation
     (updateAssociationInput conn
        (sample_data\<lparr>output_location := Some
           [VMap [(''s3_bucket_name'', VString ''logs''), (''s3_key_prefix'', VString []),
                  (''s3_region'', VString [])]]\<rparr>)) =
     Inr (Some \<lparr>S3Location = Some \<lparr>OutputS3BucketName = Some ''logs'',
            OutputS3KeyPrefix = Some [], OutputS3Region = None\<rparr>\<rparr>)"
    by (simp add: updateAssociationInput_def GetOk_def sample_data_def expand_empty_strings)
qed

end
